theory Spec2Isabelle
  imports Complex_Main "HOL-Library.Sublist"
begin

section \<open>JavaScript values used as annotation ids\<close>

text \<open>
  An annotation id is whatever the caller puts there: \<^verbatim>\<open>Date.now()\<close> in the model
  viewer, \<^verbatim>\<open>null\<close> in \<^verbatim>\<open>resetApp\<close>, anything a peer sends. The primitive values are
  modelled with JavaScript's truthiness and strict equality (\<^verbatim>\<open>===\<close>); objects and arrays
  are never used as ids in the sources and are left out. Numbers are reals, with
  \<^verbatim>\<open>NaN\<close> as a value of its own, since it is falsy and not equal to itself.
\<close>

datatype js_value =
    JUndefined
  | JNull
  | JBool bool
  | JNaN
  | JNum real
  | JStr string

fun truthy :: "js_value \<Rightarrow> bool" where
  "truthy JUndefined = False"
| "truthy JNull = False"
| "truthy (JBool b) = b"
| "truthy JNaN = False"
| "truthy (JNum n) = (n \<noteq> 0)"
| "truthy (JStr s) = (s \<noteq> [])"

text \<open>\<^verbatim>\<open>a || b\<close>\<close>

definition js_or :: "js_value \<Rightarrow> js_value \<Rightarrow> js_value" where
  "js_or a b = (if truthy a then a else b)"

text \<open>\<^verbatim>\<open>a === b\<close>; \<^verbatim>\<open>a !== b\<close> is its negation.\<close>

fun strict_eq :: "js_value \<Rightarrow> js_value \<Rightarrow> bool" where
  "strict_eq JNaN b = False"
| "strict_eq a JNaN = False"
| "strict_eq a b = (a = b)"

datatype js_error = TypeError | SyntaxError | NetworkError | DetectorError

section \<open>Data model\<close>

text \<open>
  An annotation as \<^verbatim>\<open>ModelViewer\<close> creates it:
  \<^verbatim>\<open>{ position: [x, y, z], id: Date.now(), label: `Point ...` }\<close>.
\<close>

record annotation =
  ann_id :: js_value
  position :: "real \<times> real \<times> real"
  label :: string

text \<open>
  A box \<^verbatim>\<open>{x, y, width, height}\<close>, as \<^verbatim>\<open>VideoCapture_Simple\<close> keeps it; the detecting
  components extend it with \<^verbatim>\<open>class\<close>, \<^verbatim>\<open>score\<close> and, in the vision variant, \<^verbatim>\<open>source\<close>
  and \<^verbatim>\<open>parts\<close> (absent fields are \<open>None\<close>).
\<close>

record bbox =
  box_x :: real
  box_y :: real
  box_width :: real
  box_height :: real

record point =
  pt_x :: real
  pt_y :: real

record bottle_parts =
  part_cap :: point
  part_middle :: point
  part_bottom :: point

record detection_box = bbox +
  box_class :: string
  box_score :: real
  box_source :: "string option"
  box_parts :: "bottle_parts option"

datatype tracking_status = Locked | Searching | Lost

datatype detection_status =
    StatusInitializing
  | StatusReady
  | StatusCameraError string
  | StatusDetected string int

datatype ready_state = CONNECTING | OPEN | CLOSING | CLOSED

text \<open>The message envelope of the channel: \<^verbatim>\<open>{type, annotation?, id?}\<close>.\<close>

datatype ws_message =
    annotation_added annotation
  | annotation_removed js_value
  | other_type string

text \<open>
  The React state of one client: the annotation hook (\<open>annotations\<close>), the channel of
  \<^verbatim>\<open>useWebSocket\<close> (\<open>websocket\<close> is the socket's \<^verbatim>\<open>readyState\<close>, \<open>None\<close> before the first
  socket exists; \<open>connected\<close>), the application (\<open>modelUrl\<close>) and the video component
  (\<open>detectedBox\<close> and the HUD fields). \<open>sent\<close> records, in order, what was handed to
  \<^verbatim>\<open>websocket.send\<close>.
\<close>

record client =
  annotations :: "annotation list"
  websocket :: "ready_state option"
  connected :: bool
  sent :: "ws_message list"
  modelUrl :: "string option"
  detectedBox :: "detection_box option"
  trackingStatus :: tracking_status
  detectionStatus :: detection_status
  targetDistance :: "real option"
  clearanceDistance :: "real option"

definition initial_client :: client where
  "initial_client =
     \<lparr>annotations = [], websocket = None, connected = False, sent = [], modelUrl = None,
      detectedBox = None, trackingStatus = Searching, detectionStatus = StatusInitializing,
      targetDistance = None, clearanceDistance = None\<rparr>"

section \<open>The annotation store: \<^verbatim>\<open>useAnnotations\<close>\<close>

text \<open>
  What goes over the socket is the text \<^verbatim>\<open>JSON.stringify(msg)\<close>, and a message is recorded
  as a peer's \<^verbatim>\<open>JSON.parse\<close> reads that text back: an id that is \<^verbatim>\<open>NaN\<close> is written as
  \<^verbatim>\<open>null\<close>; an id that is \<^verbatim>\<open>undefined\<close> is left out of the text and so reads back as
  \<^verbatim>\<open>undefined\<close>; every other id, the label and the position read back as they were.
\<close>

definition json_value :: "js_value \<Rightarrow> js_value" where
  "json_value v = (if v = JNaN then JNull else v)"

fun json_stringify :: "ws_message \<Rightarrow> ws_message" where
  "json_stringify (annotation_added ann) =
     annotation_added (ann\<lparr>ann_id := json_value (ann_id ann)\<rparr>)"
| "json_stringify (annotation_removed i) = annotation_removed (json_value i)"
| "json_stringify (other_type t) = other_type t"

text \<open>\<^verbatim>\<open>if (websocket?.readyState === WebSocket.OPEN) websocket.send(JSON.stringify(msg))\<close>\<close>

definition send_if_open :: "ws_message \<Rightarrow> client \<Rightarrow> client" where
  "send_if_open msg s =
     (if websocket s = Some OPEN then s\<lparr>sent := sent s @ [json_stringify msg]\<rparr> else s)"

text \<open>
  \<^verbatim>\<open>addAnnotation\<close>: \<^verbatim>\<open>newAnn = { ...annotation, id: annotation.id || Date.now() }\<close>,
  appended to the sequence, then sent when the socket is open. \<open>now\<close> is the value
  \<^verbatim>\<open>Date.now()\<close> returns.
\<close>

definition addAnnotation :: "real \<Rightarrow> annotation \<Rightarrow> client \<Rightarrow> client" where
  "addAnnotation now ann s =
     (let newAnn = ann\<lparr>ann_id := js_or (ann_id ann) (JNum now)\<rparr>
      in send_if_open (annotation_added newAnn)
           (s\<lparr>annotations := annotations s @ [newAnn]\<rparr>))"

text \<open>
  \<^verbatim>\<open>removeAnnotation\<close>: \<^verbatim>\<open>prev.filter(ann => ann.id !== id)\<close>, then the removal is sent when
  the socket is open.
\<close>

definition removeAnnotation :: "js_value \<Rightarrow> client \<Rightarrow> client" where
  "removeAnnotation i s =
     send_if_open (annotation_removed i)
       (s\<lparr>annotations := filter (\<lambda>ann. \<not> strict_eq (ann_id ann) i) (annotations s)\<rparr>)"

text \<open>\<^verbatim>\<open>resetApp\<close> of \<^verbatim>\<open>App.js\<close>: \<^verbatim>\<open>setModelUrl(null); removeAnnotation(null) // Clear all\<close>\<close>

definition resetApp :: "client \<Rightarrow> client" where
  "resetApp s = removeAnnotation JNull (s\<lparr>modelUrl := None\<rparr>)"

text \<open>
  The payload of a message event: \<^verbatim>\<open>JSON.parse(event.data)\<close> throws a SyntaxError on text
  that is not JSON, reading \<^verbatim>\<open>.type\<close> of a parsed \<^verbatim>\<open>null\<close> throws a TypeError, and anything
  else is an envelope (a \<^verbatim>\<open>type\<close> that is neither of the two known ones matches no branch).
\<close>

datatype event_data = invalid_json | json_null | json_message ws_message

fun handleMessage :: "event_data \<Rightarrow> client \<Rightarrow> js_error + client" where
  "handleMessage invalid_json s = Inl SyntaxError"
| "handleMessage json_null s = Inl TypeError"
| "handleMessage (json_message (annotation_added ann)) s =
     Inr (s\<lparr>annotations := annotations s @ [ann]\<rparr>)"
| "handleMessage (json_message (annotation_removed i)) s =
     Inr (s\<lparr>annotations := filter (\<lambda>ann. \<not> strict_eq (ann_id ann) i) (annotations s)\<rparr>)"
| "handleMessage (json_message (other_type t)) s = Inr s"

text \<open>
  Two events in sequence, with the outcome of the second. The listener stays registered:
  an event whose handling threw leaves the state as it was, and the next event is handled
  all the same.
\<close>

definition handleMessages2 :: "event_data \<Rightarrow> event_data \<Rightarrow> client \<Rightarrow> js_error + client" where
  "handleMessages2 e1 e2 s =
     (case handleMessage e1 s of
        Inl err \<Rightarrow> handleMessage e2 s
      | Inr s1 \<Rightarrow> handleMessage e2 s1)"

section \<open>The local detector: \<^verbatim>\<open>YOLODetector\<close>\<close>

text \<open>What the in-process object detector returns for a frame.\<close>

record mp_category =
  categoryName :: string
  score :: real

record mp_bounding_box =
  originX :: real
  originY :: real
  width :: real
  height :: real

record mp_detection =
  categories :: "mp_category list"
  boundingBox :: mp_bounding_box

text \<open>The objects \<^verbatim>\<open>detectObjects\<close> builds: \<^verbatim>\<open>{ class, score, bbox: {x, y, width, height} }\<close>.\<close>

record detected_object =
  obj_class :: string
  obj_score :: real
  obj_bbox :: bbox

text \<open>
  The callback of \<^verbatim>\<open>filter\<close>. \<^verbatim>\<open>det.categories[0]\<close> is \<^verbatim>\<open>undefined\<close> for a detection with
  no category, and reading \<^verbatim>\<open>categoryName\<close> of it throws.
\<close>

definition is_bottle_like :: "mp_detection \<Rightarrow> js_error + bool" where
  "is_bottle_like det =
     (case categories det of
        [] \<Rightarrow> Inl TypeError
      | category # _ \<Rightarrow>
          Inr (categoryName category = ''bottle'' \<or>
               categoryName category = ''wine glass'' \<or>
               categoryName category = ''cup''))"

text \<open>The callback of \<^verbatim>\<open>map\<close>.\<close>

definition to_object :: "mp_detection \<Rightarrow> js_error + detected_object" where
  "to_object det =
     (case categories det of
        [] \<Rightarrow> Inl TypeError
      | category # _ \<Rightarrow>
          Inr \<lparr>obj_class = categoryName category,
               obj_score = score category,
               obj_bbox = \<lparr>box_x = originX (boundingBox det),
                           box_y = originY (boundingBox det),
                           box_width = width (boundingBox det),
                           box_height = height (boundingBox det)\<rparr>\<rparr>)"

text \<open>\<^verbatim>\<open>Array.prototype.filter\<close> and \<^verbatim>\<open>map\<close> with a callback that may throw.\<close>

fun js_filter :: "('a \<Rightarrow> js_error + bool) \<Rightarrow> 'a list \<Rightarrow> js_error + 'a list" where
  "js_filter p [] = Inr []"
| "js_filter p (x # xs) =
     (case p x of
        Inl e \<Rightarrow> Inl e
      | Inr keep \<Rightarrow>
          (case js_filter p xs of
             Inl e \<Rightarrow> Inl e
           | Inr rest \<Rightarrow> Inr (if keep then x # rest else rest)))"

fun js_map :: "('a \<Rightarrow> js_error + 'b) \<Rightarrow> 'a list \<Rightarrow> js_error + 'b list" where
  "js_map f [] = Inr []"
| "js_map f (x # xs) =
     (case f x of
        Inl e \<Rightarrow> Inl e
      | Inr y \<Rightarrow> (case js_map f xs of Inl e \<Rightarrow> Inl e | Inr ys \<Rightarrow> Inr (y # ys)))"

text \<open>
  \<^verbatim>\<open>Array.prototype.sort(compare)\<close>: a stable sort; \<open>a\<close> goes before \<open>b\<close> when
  \<open>compare a b \<le> 0\<close>. Written as an insertion sort.
\<close>

fun insert_by :: "('a \<Rightarrow> 'a \<Rightarrow> real) \<Rightarrow> 'a \<Rightarrow> 'a list \<Rightarrow> 'a list" where
  "insert_by compare a [] = [a]"
| "insert_by compare a (b # bs) =
     (if compare a b \<le> 0 then a # b # bs else b # insert_by compare a bs)"

definition js_sort :: "('a \<Rightarrow> 'a \<Rightarrow> real) \<Rightarrow> 'a list \<Rightarrow> 'a list" where
  "js_sort compare xs = foldr (insert_by compare) xs []"

text \<open>
  \<^verbatim>\<open>detectObjects\<close>. \<open>model\<close> is the loaded detector (\<open>None\<close> when loading failed), called
  as \<^verbatim>\<open>this.model.detectForVideo(videoElement, performance.now())\<close>; everything it or the
  callbacks throw is caught and gives the empty list.
\<close>

definition detectObjects ::
  "('v \<Rightarrow> real \<Rightarrow> js_error + mp_detection list) option \<Rightarrow> 'v option \<Rightarrow> real
     \<Rightarrow> detected_object list" where
  "detectObjects model videoElement now =
     (case model of
        None \<Rightarrow> []
      | Some detectForVideo \<Rightarrow>
          (case videoElement of
             None \<Rightarrow> []
           | Some video \<Rightarrow>
               (case detectForVideo video now of
                  Inl error \<Rightarrow> []
                | Inr detections \<Rightarrow>
                    (case js_filter is_bottle_like detections of
                       Inl error \<Rightarrow> []
                     | Inr kept \<Rightarrow>
                         (case js_map to_object kept of
                            Inl error \<Rightarrow> []
                          | Inr bottleObjects \<Rightarrow>
                              js_sort (\<lambda>a b. obj_score b - obj_score a) bottleObjects)))))"

text \<open>\<^verbatim>\<open>detectBottle\<close>: \<^verbatim>\<open>null\<close> when the list is empty, else \<^verbatim>\<open>objects[0]\<close>.\<close>

definition detectBottle ::
  "('v \<Rightarrow> real \<Rightarrow> js_error + mp_detection list) option \<Rightarrow> 'v option \<Rightarrow> real
     \<Rightarrow> detected_object option" where
  "detectBottle model videoElement now =
     (case detectObjects model videoElement now of
        [] \<Rightarrow> None
      | obj # _ \<Rightarrow> Some obj)"

section \<open>The detection loop and the overlay of \<^verbatim>\<open>VideoCapture.jsx\<close>\<close>

text \<open>\<^verbatim>\<open>Math.round\<close>: the nearest integer, halves upwards.\<close>

definition js_round :: "real \<Rightarrow> int" where
  "js_round r = \<lfloor>r + 1 / 2\<rfloor>"

text \<open>
  One run of \<^verbatim>\<open>detectLoop\<close>. \<open>video_ready\<close> is
  \<^verbatim>\<open>videoRef.current && videoRef.current.readyState === 4\<close>; \<open>outcome\<close> is what
  \<^verbatim>\<open>await detector.detectBottle(...)\<close> gives, \<open>Inl\<close> when it throws; \<open>random1\<close> and
  \<open>random2\<close> are the two values of \<^verbatim>\<open>Math.random()\<close>.
\<close>

definition detectLoop ::
  "bool \<Rightarrow> js_error + detected_object option \<Rightarrow> real \<Rightarrow> real \<Rightarrow> client \<Rightarrow> client" where
  "detectLoop video_ready outcome random1 random2 s =
     (if video_ready then
        (case outcome of
           Inr (Some detection) \<Rightarrow>
             s\<lparr>detectedBox :=
                  Some \<lparr>box_x = box_x (obj_bbox detection),
                        box_y = box_y (obj_bbox detection),
                        box_width = box_width (obj_bbox detection),
                        box_height = box_height (obj_bbox detection),
                        box_class = obj_class detection,
                        box_score = obj_score detection,
                        box_source = None,
                        box_parts = None\<rparr>,
               detectionStatus :=
                  StatusDetected (obj_class detection) (js_round (obj_score detection * 100)),
               trackingStatus := Locked,
               targetDistance := Some (12.4 + (random1 * 1.2 - 0.6)),
               clearanceDistance := Some (3.2 + (random2 * 0.4 - 0.2))\<rparr>
         | Inr None \<Rightarrow> s\<lparr>trackingStatus := Searching\<rparr>
         | Inl error \<Rightarrow> s\<lparr>trackingStatus := Lost\<rparr>)
      else s)"

text \<open>
  The loop reschedules itself on every animation frame; the statuses after each of a
  sequence of cycles, every cycle given as (video ready, outcome, random, random).
\<close>

fun status_sequence ::
  "(bool \<times> (js_error + detected_object option) \<times> real \<times> real) list \<Rightarrow> client
     \<Rightarrow> tracking_status list" where
  "status_sequence [] s = []"
| "status_sequence ((video_ready, outcome, random1, random2) # cycles) s =
     trackingStatus (detectLoop video_ready outcome random1 random2 s) #
     status_sequence cycles (detectLoop video_ready outcome random1 random2 s)"

text \<open>The calibration table, fractions of the box measured from its top left corner.\<close>

record anchor =
  xPercent :: real
  yPercent :: real

record calibration_table =
  cap :: anchor
  middle :: anchor
  bottom :: anchor

definition calibration :: calibration_table where
  "calibration =
     \<lparr>cap = \<lparr>xPercent = 0.5, yPercent = 0.15\<rparr>,
      middle = \<lparr>xPercent = 0.5, yPercent = 0.5\<rparr>,
      bottom = \<lparr>xPercent = 0.5, yPercent = 0.85\<rparr>\<rparr>"

text \<open>
  \<^verbatim>\<open>String.prototype.toLowerCase\<close> on the letters A to Z (every keyword below is made of
  the letters a to z), and \<^verbatim>\<open>label.includes(keyword)\<close>.
\<close>

definition lower_char :: "char \<Rightarrow> char" where
  "lower_char c =
     (case map_of (zip ''ABCDEFGHIJKLMNOPQRSTUVWXYZ'' ''abcdefghijklmnopqrstuvwxyz'') c of
        Some l \<Rightarrow> l
      | None \<Rightarrow> c)"

definition toLowerCase :: "string \<Rightarrow> string" where
  "toLowerCase str = map lower_char str"

fun js_includes :: "string \<Rightarrow> string \<Rightarrow> bool" where
  "js_includes [] keyword = (keyword = [])"
| "js_includes (c # cs) keyword = (prefix keyword (c # cs) \<or> js_includes cs keyword)"

text \<open>The \<^verbatim>\<open>if\<close> chain of \<^verbatim>\<open>draw\<close> that picks the calibration point of an annotation.\<close>

definition calibration_point :: "calibration_table \<Rightarrow> annotation \<Rightarrow> anchor" where
  "calibration_point cal ann =
     (let lbl = toLowerCase (label ann) in
      if js_includes lbl ''cap'' \<or> js_includes lbl ''top'' then cap cal
      else if js_includes lbl ''middle'' \<or> js_includes lbl ''center'' \<or> js_includes lbl ''body''
        then middle cal
      else if js_includes lbl ''bottom'' \<or> js_includes lbl ''base'' then bottom cal
      else cap cal)"

text \<open>
  The marker positions \<^verbatim>\<open>(markerX, markerY)\<close> that \<^verbatim>\<open>draw\<close> computes and draws, one for each
  annotation, under the guard
  \<^verbatim>\<open>detectedBox && detectedBox.width > 0 && annotations && annotations.length > 0\<close>.
\<close>

definition draw_markers ::
  "calibration_table \<Rightarrow> 'a detection_box_scheme option \<Rightarrow> annotation list
     \<Rightarrow> (real \<times> real) list" where
  "draw_markers cal box anns =
     (case box of
        None \<Rightarrow> []
      | Some b \<Rightarrow>
          if box_width b > 0 \<and> length anns > 0 then
            map (\<lambda>ann.
                  (box_x b + xPercent (calibration_point cal ann) * box_width b,
                   box_y b + yPercent (calibration_point cal ann) * box_height b)) anns
          else [])"

section \<open>The vision variant of the video component, and \<^verbatim>\<open>VideoCapture_Simple.jsx\<close>\<close>

record model_bounds =
  minX :: real
  maxX :: real
  minY :: real
  maxY :: real
  minZ :: real
  maxZ :: real

definition modelBounds :: model_bounds where
  "modelBounds =
     \<lparr>minX = - 0.5, maxX = 0.5, minY = - 1.0, maxY = 1.0, minZ = - 0.5, maxZ = 0.5\<rparr>"

text \<open>
  The fast loop of the vision variant: the box is replaced or set to \<^verbatim>\<open>null\<close>; an error is
  logged and changes nothing.
\<close>

definition detectLoop_fast ::
  "bool \<Rightarrow> js_error + detected_object option \<Rightarrow> client \<Rightarrow> client" where
  "detectLoop_fast video_ready outcome s =
     (if video_ready then
        (case outcome of
           Inr (Some detection) \<Rightarrow>
             s\<lparr>detectedBox :=
                  Some \<lparr>box_x = box_x (obj_bbox detection),
                        box_y = box_y (obj_bbox detection),
                        box_width = box_width (obj_bbox detection),
                        box_height = box_height (obj_bbox detection),
                        box_class = obj_class detection,
                        box_score = obj_score detection,
                        box_source = Some ''coco-ssd'',
                        box_parts = None\<rparr>\<rparr>
         | Inr None \<Rightarrow> s\<lparr>detectedBox := None\<rparr>
         | Inl error \<Rightarrow> s)
      else s)"

text \<open>
  The answer of the remote detection service:
  \<^verbatim>\<open>{ detected, bbox: {x, y, width, height}, confidence, parts?: {cap, middle, bottom} }\<close>,
  in the coordinates of the 640 by 480 canvas that was sent.
\<close>

record vision_result =
  detected :: bool
  res_bbox :: bbox
  confidence :: real
  res_parts :: "bottle_parts option"

definition scale_point :: "real \<Rightarrow> real \<Rightarrow> point \<Rightarrow> point" where
  "scale_point scaleX scaleY p = \<lparr>pt_x = pt_x p * scaleX, pt_y = pt_y p * scaleY\<rparr>"

text \<open>
  \<^verbatim>\<open>detectWithVision\<close>, from the \<^verbatim>\<open>try\<close> on. \<open>response\<close> is what
  \<^verbatim>\<open>await fetch(...)\<close> and \<^verbatim>\<open>await response.json()\<close> give, \<open>Inl\<close> when either throws; the
  \<^verbatim>\<open>catch\<close> logs the error and does nothing else.
\<close>

definition detectWithVision :: "js_error + vision_result \<Rightarrow> client \<Rightarrow> client" where
  "detectWithVision response s =
     (case response of
        Inl error \<Rightarrow> s
      | Inr result \<Rightarrow>
          if detected result then
            (let scaleX = 1280 / 640; scaleY = 720 / 480 in
             s\<lparr>detectedBox :=
                  Some \<lparr>box_x = box_x (res_bbox result) * scaleX,
                        box_y = box_y (res_bbox result) * scaleY,
                        box_width = box_width (res_bbox result) * scaleX,
                        box_height = box_height (res_bbox result) * scaleY,
                        box_class = ''bottle'',
                        box_score = confidence result,
                        box_source = Some ''gpt-4v'',
                        box_parts =
                          (case res_parts result of
                             None \<Rightarrow> None
                           | Some parts \<Rightarrow>
                               Some \<lparr>part_cap = scale_point scaleX scaleY (part_cap parts),
                                     part_middle = scale_point scaleX scaleY (part_middle parts),
                                     part_bottom = scale_point scaleX scaleY (part_bottom parts)\<rparr>)\<rparr>\<rparr>)
          else s\<lparr>detectedBox := None\<rparr>)"

text \<open>
  The positions \<^verbatim>\<open>(videoX, videoY)\<close> that \<^verbatim>\<open>draw\<close> computes for the annotations, in the
  vision variant and, on \<^verbatim>\<open>bottleBox\<close>, in \<^verbatim>\<open>VideoCapture_Simple.jsx\<close>, under the guard
  \<^verbatim>\<open>box && box.width > 0 && box.height > 0 && annotations.length > 0\<close>.
\<close>

definition video_position ::
  "model_bounds \<Rightarrow> 'a bbox_scheme \<Rightarrow> annotation \<Rightarrow> real \<times> real" where
  "video_position mb b ann =
     (case position ann of
        (x3d, y3d, z3d) \<Rightarrow>
          (let normalizedX = (x3d - minX mb) / (maxX mb - minX mb);
               normalizedY = (y3d - minY mb) / (maxY mb - minY mb)
           in (box_x b + normalizedX * box_width b,
               box_y b + (1 - normalizedY) * box_height b)))"

definition draw_annotations ::
  "model_bounds \<Rightarrow> 'a bbox_scheme option \<Rightarrow> annotation list \<Rightarrow> (real \<times> real) list" where
  "draw_annotations mb box anns =
     (case box of
        None \<Rightarrow> []
      | Some b \<Rightarrow>
          if box_width b > 0 \<and> box_height b > 0 \<and> length anns > 0
          then map (video_position mb b) anns
          else [])"

section \<open>The anchor choice, worded declaratively\<close>

text \<open>
  The choice as the specification words it: the categories \<open>cap\<close>, \<open>middle\<close>, \<open>bottom\<close> in
  this order, the first whose name occurs in the lower-cased label wins, and the default
  anchor (the cap's, as in the code) is used when none does.
\<close>

definition spec_anchor :: "calibration_table \<Rightarrow> annotation \<Rightarrow> anchor" where
  "spec_anchor cal ann =
     (case find (\<lambda>(name, a). js_includes (toLowerCase (label ann)) name)
             [(''cap'', cap cal), (''middle'', middle cal), (''bottom'', bottom cal)] of
        Some (name, a) \<Rightarrow> a
      | None \<Rightarrow> cap cal)"

definition spec_resolve ::
  "calibration_table \<Rightarrow> 'a bbox_scheme \<Rightarrow> annotation \<Rightarrow> real \<times> real" where
  "spec_resolve cal b ann =
     (box_x b + xPercent (spec_anchor cal ann) * box_width b,
      box_y b + yPercent (spec_anchor cal ann) * box_height b)"

text \<open>
  The choice that \<^verbatim>\<open>draw\<close> makes, as a table: every category has a list of keywords, the
  first category one of whose keywords is a substring of the lower-cased label wins, and
  the cap's anchor is the default.
\<close>

definition keyword_table :: "calibration_table \<Rightarrow> (string list \<times> anchor) list" where
  "keyword_table cal =
     [([''cap'', ''top''], cap cal),
      ([''middle'', ''center'', ''body''], middle cal),
      ([''bottom'', ''base''], bottom cal)]"

definition keyword_anchor :: "calibration_table \<Rightarrow> string \<Rightarrow> anchor" where
  "keyword_anchor cal lbl =
     (case find (\<lambda>(keywords, a). \<exists>k \<in> set keywords. sublist k (toLowerCase lbl))
             (keyword_table cal) of
        Some (keywords, a) \<Rightarrow> a
      | None \<Rightarrow> cap cal)"

section \<open>Example inputs\<close>

definition cap_marker :: annotation where
  "cap_marker = \<lparr>ann_id = JStr ''a1'', position = (0, 1, 0), label = ''Cap marker''\<rparr>"

definition base_point :: annotation where
  "base_point =
     \<lparr>ann_id = JNum 1700000000000, position = (0, - 1, 0), label = ''Point 1700000000000''\<rparr>"

definition zero_id_point :: annotation where
  "zero_id_point = \<lparr>ann_id = JNum 0, position = (0, 0, 0), label = ''Point 0''\<rparr>"

text \<open>A client with two annotations and an open socket.\<close>

definition open_client :: client where
  "open_client =
     initial_client\<lparr>annotations := [cap_marker, base_point], websocket := Some OPEN,
       connected := True\<rparr>"

text \<open>A frame in which a person, a bottle and a chair are detected.\<close>

definition example_detections :: "mp_detection list" where
  "example_detections =
     [\<lparr>categories = [\<lparr>categoryName = ''person'', score = 0.9\<rparr>],
       boundingBox = \<lparr>originX = 0, originY = 0, width = 100, height = 300\<rparr>\<rparr>,
      \<lparr>categories = [\<lparr>categoryName = ''bottle'', score = 0.4\<rparr>],
       boundingBox = \<lparr>originX = 300, originY = 200, width = 80, height = 240\<rparr>\<rparr>,
      \<lparr>categories = [\<lparr>categoryName = ''chair'', score = 0.95\<rparr>],
       boundingBox = \<lparr>originX = 500, originY = 100, width = 200, height = 400\<rparr>\<rparr>]"

definition example_bottle :: detected_object where
  "example_bottle =
     \<lparr>obj_class = ''bottle'', obj_score = 0.4,
      obj_bbox = \<lparr>box_x = 300, box_y = 200, box_width = 80, box_height = 240\<rparr>\<rparr>"

text \<open>A detected box, the same box flattened to height 0, and an annotation on the body.\<close>

definition example_box :: detection_box where
  "example_box =
     \<lparr>box_x = 100, box_y = 50, box_width = 200, box_height = 400,
      box_class = ''bottle'', box_score = 0.9, box_source = None, box_parts = None\<rparr>"

definition flat_box :: detection_box where
  "flat_box = example_box\<lparr>box_height := 0\<rparr>"

definition center_line :: annotation where
  "center_line = \<lparr>ann_id = JStr ''a2'', position = (0, 0, 0), label = ''Center line''\<rparr>"

text \<open>An answer of the remote service, and a client that already tracks a box.\<close>

definition example_result :: vision_result where
  "example_result =
     \<lparr>detected = True,
      res_bbox = \<lparr>box_x = 160, box_y = 120, box_width = 50, box_height = 50\<rparr>,
      confidence = 0.8,
      res_parts = Some \<lparr>part_cap = \<lparr>pt_x = 185, pt_y = 125\<rparr>,
                        part_middle = \<lparr>pt_x = 185, pt_y = 145\<rparr>,
                        part_bottom = \<lparr>pt_x = 185, pt_y = 165\<rparr>\<rparr>\<rparr>"

definition tracking_client :: client where
  "tracking_client = open_client\<lparr>detectedBox := Some example_box\<rparr>"

section \<open>The detector returns the best allowed object\<close>

lemma js_filter_Inr:
  "js_filter p xs = Inr kept \<Longrightarrow> kept = filter (\<lambda>x. p x = Inr True) xs"
  by (induction xs arbitrary: kept) (auto split: sum.splits if_splits)

lemma js_filter_total:
  "\<forall>x \<in> set xs. \<exists>b. p x = Inr b \<Longrightarrow> \<exists>kept. js_filter p xs = Inr kept"
proof (induction xs)
  case Nil
  show ?case by simp
next
  case (Cons x xs)
  then obtain b kept where "p x = Inr b" "js_filter p xs = Inr kept"
    by auto
  then show ?case by simp
qed

lemma js_map_Inr:
  "js_map f xs = Inr ys \<Longrightarrow> list_all2 (\<lambda>x y. f x = Inr y) xs ys"
  by (induction xs arbitrary: ys) (auto split: sum.splits)

lemma js_map_total:
  "\<forall>x \<in> set xs. \<exists>y. f x = Inr y \<Longrightarrow> \<exists>ys. js_map f xs = Inr ys"
proof (induction xs)
  case Nil
  show ?case by simp
next
  case (Cons x xs)
  then obtain y ys where "f x = Inr y" "js_map f xs = Inr ys"
    by auto
  then show ?case by simp
qed

lemma set_insert_by: "set (insert_by cmp a xs) = insert a (set xs)"
  by (induction xs) auto

lemma set_js_sort: "set (js_sort cmp xs) = set xs"
  by (induction xs) (auto simp: js_sort_def set_insert_by)

lemma length_js_sort: "length (js_sort cmp xs) = length xs"
proof -
  have "length (insert_by cmp a ys) = Suc (length ys)" for a ys
    by (induction ys) auto
  then show ?thesis by (induction xs) (auto simp: js_sort_def)
qed

text \<open>Sorting with the comparison \<^verbatim>\<open>(a, b) => b.score - a.score\<close> puts the scores in descending order.\<close>

lemma sorted_insert_by:
  "sorted_wrt (\<lambda>a b. obj_score b \<le> obj_score a) xs \<Longrightarrow>
   sorted_wrt (\<lambda>a b. obj_score b \<le> obj_score a)
     (insert_by (\<lambda>a b. obj_score b - obj_score a) x xs)"
  by (induction xs) (auto simp: set_insert_by)

lemma sorted_js_sort:
  "sorted_wrt (\<lambda>a b. obj_score b \<le> obj_score a)
     (js_sort (\<lambda>a b. obj_score b - obj_score a) xs)"
  by (induction xs) (auto simp: js_sort_def sorted_insert_by)

lemma js_sort_head_best:
  assumes "js_sort (\<lambda>a b. obj_score b - obj_score a) xs = obj # rest"
  shows "obj \<in> set xs \<and> (\<forall>o' \<in> set xs. obj_score o' \<le> obj_score obj)"
proof -
  have s: "set xs = insert obj (set rest)"
    using set_js_sort [of "\<lambda>a b. obj_score b - obj_score a" xs] assms by simp
  have "sorted_wrt (\<lambda>a b. obj_score b \<le> obj_score a) (obj # rest)"
    using sorted_js_sort [of xs] assms by simp
  then show ?thesis using s by auto
qed

lemma is_bottle_like_True:
  "is_bottle_like det = Inr True \<longleftrightarrow>
     (\<exists>c rest. categories det = c # rest \<and>
        categoryName c \<in> {''bottle'', ''cup'', ''wine glass''})"
  by (auto simp: is_bottle_like_def split: list.splits)

lemma is_bottle_like_total: "categories det \<noteq> [] \<Longrightarrow> \<exists>b. is_bottle_like det = Inr b"
  by (auto simp: is_bottle_like_def split: list.splits)

lemma to_object_Inr:
  "to_object det = Inr obj \<longleftrightarrow>
     (\<exists>c rest. categories det = c # rest \<and>
        obj = \<lparr>obj_class = categoryName c, obj_score = score c,
               obj_bbox = \<lparr>box_x = originX (boundingBox det), box_y = originY (boundingBox det),
                           box_width = width (boundingBox det),
                           box_height = height (boundingBox det)\<rparr>\<rparr>)"
  by (auto simp: to_object_def split: list.splits)

lemma list_all2_set1: "list_all2 R xs ys \<Longrightarrow> x \<in> set xs \<Longrightarrow> \<exists>y \<in> set ys. R x y"
  by (induction rule: list_all2_induct) auto

lemma list_all2_set2: "list_all2 R xs ys \<Longrightarrow> y \<in> set ys \<Longrightarrow> \<exists>x \<in> set xs. R x y"
  by (induction rule: list_all2_induct) auto

lemma detectObjects_Cons:
  assumes "detectObjects model video now = obj # rest"
  shows "\<exists>m v dets kept objs. model = Some m \<and> video = Some v \<and> m v now = Inr dets
           \<and> kept = filter (\<lambda>d. is_bottle_like d = Inr True) dets
           \<and> list_all2 (\<lambda>d ob. to_object d = Inr ob) kept objs
           \<and> obj \<in> set objs \<and> (\<forall>o' \<in> set objs. obj_score o' \<le> obj_score obj)"
  using assms
  by (auto simp: detectObjects_def split: option.splits sum.splits
      dest!: js_filter_Inr js_map_Inr js_sort_head_best)

lemma detectObjects_nonempty:
  assumes m: "m v now = Inr dets"
    and cats: "\<forall>det \<in> set dets. categories det \<noteq> []"
    and ex: "\<exists>det \<in> set dets. is_bottle_like det = Inr True"
  shows "detectObjects (Some m) (Some v) now \<noteq> []"
proof -
  from cats have "\<forall>det \<in> set dets. \<exists>b. is_bottle_like det = Inr b"
    by (simp add: is_bottle_like_total)
  then obtain kept where kept: "js_filter is_bottle_like dets = Inr kept"
    using js_filter_total by blast
  then have kept_eq: "kept = filter (\<lambda>d. is_bottle_like d = Inr True) dets"
    by (rule js_filter_Inr)
  with ex have ne: "kept \<noteq> []"
    by (auto simp: filter_empty_conv)
  from kept_eq cats have "\<forall>det \<in> set kept. \<exists>ob. to_object det = Inr ob"
    by (auto simp: to_object_def split: list.splits)
  then obtain objs where objs: "js_map to_object kept = Inr objs"
    using js_map_total by blast
  then have "length objs = length kept"
    using list_all2_lengthD [OF js_map_Inr] by fastforce
  with ne have "js_sort (\<lambda>a b. obj_score b - obj_score a) objs \<noteq> []"
    using length_js_sort [of "\<lambda>a b. obj_score b - obj_score a" objs] by auto
  with m kept objs show ?thesis
    by (simp add: detectObjects_def)
qed

lemma detectBottle_example:
  "detectBottle (Some (\<lambda>frame t. Inr example_detections)) (Some frame0) t0 = Some example_bottle"
  by (simp add: detectBottle_def detectObjects_def example_detections_def example_bottle_def
      is_bottle_like_def to_object_def js_sort_def)

text \<open>
  Claim C1. For every frame \<^verbatim>\<open>detectBottle\<close> returns at most one object. When it returns
  one, its category is \<open>bottle\<close>, \<open>cup\<close> or \<open>wine glass\<close>, it is built from one of the
  frame's detections, and no detection of the frame with an allowed category has a higher
  score: detections of other categories play no part, whatever their score. It does
  return one whenever the detector ran, every detection carries a category and one of
  them is allowed. For the detections person 0.9, bottle 0.4, chair 0.95 the result is the
  bottle at 0.4.
\<close>

theorem detectBottle_best_allowed:
  "(\<forall>obj. detectBottle model video now = Some obj \<longrightarrow>
      obj_class obj \<in> {''bottle'', ''cup'', ''wine glass''} \<and>
      (\<exists>m v dets. model = Some m \<and> video = Some v \<and> m v now = Inr dets \<and>
         (\<exists>det \<in> set dets. to_object det = Inr obj) \<and>
         (\<forall>det \<in> set dets. \<forall>c rest.
            categories det = c # rest \<and> categoryName c \<in> {''bottle'', ''cup'', ''wine glass''}
            \<longrightarrow> score c \<le> obj_score obj)))
   \<and> (\<forall>m v dets.
        model = Some m \<and> video = Some v \<and> m v now = Inr dets \<and>
        (\<forall>det \<in> set dets. categories det \<noteq> []) \<and>
        (\<exists>det \<in> set dets. \<exists>c rest.
            categories det = c # rest \<and> categoryName c \<in> {''bottle'', ''cup'', ''wine glass''})
        \<longrightarrow> detectBottle model video now \<noteq> None)
   \<and> detectBottle (Some (\<lambda>frame t. Inr example_detections)) (Some frame0) t0 =
       Some example_bottle"
proof (intro conjI allI impI)
  fix obj
  assume "detectBottle model video now = Some obj"
  then obtain rest where "detectObjects model video now = obj # rest"
    by (auto simp: detectBottle_def split: list.splits)
  then obtain m v dets objs where
    mv: "model = Some m" "video = Some v" "m v now = Inr dets" and
    rel: "list_all2 (\<lambda>d ob. to_object d = Inr ob)
            (filter (\<lambda>d. is_bottle_like d = Inr True) dets) objs" and
    mem: "obj \<in> set objs" and best: "\<forall>o' \<in> set objs. obj_score o' \<le> obj_score obj"
    using detectObjects_Cons by blast
  from rel mem obtain det where
    det: "det \<in> set dets" "is_bottle_like det = Inr True" "to_object det = Inr obj"
    using list_all2_set2 [OF rel mem] by auto
  from det(2,3) show "obj_class obj \<in> {''bottle'', ''cup'', ''wine glass''}"
    by (auto simp: is_bottle_like_True to_object_Inr)
  have "\<forall>d \<in> set dets. \<forall>c rest.
          categories d = c # rest \<and> categoryName c \<in> {''bottle'', ''cup'', ''wine glass''}
          \<longrightarrow> score c \<le> obj_score obj"
  proof (intro ballI allI impI)
    fix d c rest'
    assume d: "d \<in> set dets"
      and c: "categories d = c # rest' \<and> categoryName c \<in> {''bottle'', ''cup'', ''wine glass''}"
    then have "is_bottle_like d = Inr True"
      by (auto simp: is_bottle_like_True)
    with d have "d \<in> set (filter (\<lambda>d. is_bottle_like d = Inr True) dets)"
      by simp
    from list_all2_set1 [OF rel this] obtain ob where
      ob: "ob \<in> set objs" "to_object d = Inr ob"
      by auto
    from ob(2) c have "obj_score ob = score c"
      by (auto simp: to_object_Inr)
    with best ob(1) show "score c \<le> obj_score obj"
      by auto
  qed
  with mv det show "\<exists>m v dets. model = Some m \<and> video = Some v \<and> m v now = Inr dets \<and>
         (\<exists>det \<in> set dets. to_object det = Inr obj) \<and>
         (\<forall>det \<in> set dets. \<forall>c rest.
            categories det = c # rest \<and> categoryName c \<in> {''bottle'', ''cup'', ''wine glass''}
            \<longrightarrow> score c \<le> obj_score obj)"
    by blast
next
  fix m v dets
  assume a: "model = Some m \<and> video = Some v \<and> m v now = Inr dets \<and>
        (\<forall>det \<in> set dets. categories det \<noteq> []) \<and>
        (\<exists>det \<in> set dets. \<exists>c rest.
            categories det = c # rest \<and> categoryName c \<in> {''bottle'', ''cup'', ''wine glass''})"
  then have "\<exists>det \<in> set dets. is_bottle_like det = Inr True"
    by (auto simp: is_bottle_like_True)
  with a have "detectObjects (Some m) (Some v) now \<noteq> []"
    by (intro detectObjects_nonempty) auto
  with a show "detectBottle model video now \<noteq> None"
    by (auto simp: detectBottle_def split: list.splits)
next
  show "detectBottle (Some (\<lambda>frame t. Inr example_detections)) (Some frame0) t0 =
       Some example_bottle"
    by (rule detectBottle_example)
qed

theorem detectBottle_best_allowed_witness:
  "detectBottle (Some (\<lambda>frame t. Inr example_detections)) (Some ()) 0 = Some example_bottle
   \<and> obj_class example_bottle = ''bottle''
   \<and> obj_score example_bottle = 0.4
   \<and> to_object (example_detections ! 1) = Inr example_bottle
   \<and> score (hd (categories (example_detections ! 2))) > obj_score example_bottle"
  using detectBottle_best_allowed
    [of "Some (\<lambda>frame t. Inr example_detections)" "Some ()" 0 "()" 0]
  by (simp add: example_detections_def example_bottle_def to_object_def)

section \<open>The tracking status\<close>

text \<open>
  Claim C2. The status starts as Searching. A cycle of \<^verbatim>\<open>detectLoop\<close> on a ready video sets
  it to Locked when the detector gave a box, to Searching when it gave none and to Lost
  when the detection threw; so the outcomes box, box, none, exception give the statuses
  Locked, Locked, Searching, Lost.
\<close>

theorem detectLoop_status:
  "trackingStatus initial_client = Searching
   \<and> trackingStatus (detectLoop True (Inr (Some box)) r1 r2 s) = Locked
   \<and> trackingStatus (detectLoop True (Inr None) r1 r2 s) = Searching
   \<and> trackingStatus (detectLoop True (Inl err) r1 r2 s) = Lost
   \<and> status_sequence
        [(True, Inr (Some box1), r1, r2), (True, Inr (Some box2), r3, r4),
         (True, Inr None, r5, r6), (True, Inl err, r7, r8)] initial_client =
      [Locked, Locked, Searching, Lost]"
  by (simp add: detectLoop_def initial_client_def)

theorem detectLoop_status_witness:
  "status_sequence
     [(True, Inr (detectBottle (Some (\<lambda>frame t. Inr example_detections)) (Some ()) 0), 0.5, 0.5),
      (True, Inr (Some example_bottle), 0.5, 0.5),
      (True, Inr None, 0.5, 0.5), (True, Inl DetectorError, 0.5, 0.5)] initial_client =
   [Locked, Locked, Searching, Lost]"
  using detectLoop_status [of example_bottle "0.5" "0.5" initial_client DetectorError
      example_bottle example_bottle "0.5" "0.5" "0.5" "0.5" "0.5" "0.5"]
  by (simp add: detectBottle_example)

section \<open>Markers from the calibration table\<close>

lemma js_includes_sublist: "js_includes str k \<longleftrightarrow> sublist k str"
  by (induction str) (auto simp: sublist_Cons_right)

lemma calibration_point_keyword:
  "calibration_point cal ann = keyword_anchor cal (label ann)"
  by (simp add: calibration_point_def keyword_anchor_def keyword_table_def Let_def
      js_includes_sublist)

text \<open>
  Claim C3, as stated, fails: the anchor is not chosen by the categories' names alone. The
  label ``Center line'' contains none of the names \<open>cap\<close>, \<open>middle\<close>, \<open>bottom\<close>, so the
  wording of the claim gives the default anchor and the pixel (200, 110) on the box
  (100, 50, 200, 400); \<^verbatim>\<open>draw\<close> finds the keyword \<open>center\<close> and puts the marker at the
  middle anchor, (200, 250).
\<close>

theorem draw_markers_name_only_counterexample:
  "draw_markers calibration (Some example_box) [center_line] = [(200, 250)]
   \<and> spec_resolve calibration example_box center_line = (200, 110)
   \<and> draw_markers calibration (Some example_box) [center_line] \<noteq>
       map (spec_resolve calibration example_box) [center_line]"
  by (simp add: draw_markers_def calibration_point_def spec_resolve_def spec_anchor_def
      calibration_def example_box_def center_line_def toLowerCase_def lower_char_def)

text \<open>
  Claim C3, amended. For every box that is present with a positive width and a positive
  height and every non-empty annotation sequence, \<^verbatim>\<open>draw\<close> puts the marker of each
  annotation at
  (x + xPercent * width, y + yPercent * height) of the box, for the anchor of the first
  category, in the order cap, middle, bottom, one of whose keywords (cap: cap, top;
  middle: middle, center, body; bottom: bottom, base) is a substring of the lower-cased
  label, and for the cap's anchor when no keyword occurs. ``Cap marker'' on the box
  (100, 50, 200, 400) gives (200, 110).
\<close>

theorem draw_markers_keyword_anchor:
  "(0 < box_width b \<and> 0 < box_height b \<and> anns \<noteq> [] \<longrightarrow>
      draw_markers cal (Some b) anns =
        map (\<lambda>ann. (box_x b + xPercent (keyword_anchor cal (label ann)) * box_width b,
                     box_y b + yPercent (keyword_anchor cal (label ann)) * box_height b)) anns)
   \<and> calibration_point cal ann = keyword_anchor cal (label ann)
   \<and> draw_markers calibration (Some example_box) [cap_marker] = [(200, 110)]"
proof (intro conjI impI)
  show "calibration_point cal ann = keyword_anchor cal (label ann)"
    by (rule calibration_point_keyword)
  show "draw_markers calibration (Some example_box) [cap_marker] = [(200, 110)]"
    by (simp add: draw_markers_def calibration_point_def calibration_def example_box_def
        cap_marker_def toLowerCase_def lower_char_def)
next
  assume "0 < box_width b \<and> 0 < box_height b \<and> anns \<noteq> []"
  then show "draw_markers cal (Some b) anns =
        map (\<lambda>ann. (box_x b + xPercent (keyword_anchor cal (label ann)) * box_width b,
                     box_y b + yPercent (keyword_anchor cal (label ann)) * box_height b)) anns"
    by (simp add: draw_markers_def calibration_point_keyword)
qed

theorem draw_markers_keyword_anchor_witness:
  "0 < box_width example_box \<and> 0 < box_height example_box \<and> [cap_marker, center_line] \<noteq> []
   \<and> draw_markers calibration (Some example_box) [cap_marker, center_line] =
       [(200, 110), (200, 250)]
   \<and> keyword_anchor calibration (label cap_marker) = cap calibration
   \<and> keyword_anchor calibration (label center_line) = middle calibration"
  using draw_markers_keyword_anchor [of example_box "[cap_marker, center_line]" calibration center_line]
  by (simp add: draw_markers_def calibration_point_def calibration_def example_box_def
        cap_marker_def center_line_def toLowerCase_def lower_char_def)

text \<open>
  Claim C5 does not hold of \<^verbatim>\<open>VideoCapture.jsx\<close>: its guard tests the width only. On a box
  of width 200 and height 0 it computes a marker, at (200, 50), where the draw of the
  vision variant and of \<^verbatim>\<open>VideoCapture_Simple.jsx\<close>, which test the height too, computes none.
\<close>

theorem draw_markers_flat_box:
  "draw_markers calibration (Some flat_box) [cap_marker] = [(200, 50)]
   \<and> draw_annotations modelBounds (Some flat_box) [cap_marker] = []"
  by (simp add: draw_markers_def draw_annotations_def calibration_point_def calibration_def
      flat_box_def example_box_def cap_marker_def toLowerCase_def lower_char_def)

text \<open>What the guards do give: no marker without a box or on a box of no width, and for the
  linear mapping none on a box of no height either.\<close>

lemma no_box_no_markers:
  "draw_markers cal None anns = [] \<and> draw_annotations mb None anns = []
   \<and> (box_width b \<le> 0 \<longrightarrow>
        draw_markers cal (Some b) anns = [] \<and> draw_annotations mb (Some b) anns = [])
   \<and> (box_height b \<le> 0 \<longrightarrow> draw_annotations mb (Some b) anns = [])"
  by (simp add: draw_markers_def draw_annotations_def)

section \<open>The linear mapping\<close>

text \<open>
  Claim C6. On a box of positive width and height and a non-empty annotation sequence the
  linear mapping puts every annotation at
  (x + normalizedX * width, y + (1 - normalizedY) * height), with
  normalizedY = (y3d - minY) / (maxY - minY). For a position within the bounds
  normalizedY lies in [0, 1] and the pixel within the box's vertical extent; the top of
  the model maps to the top of the box and the bottom to its bottom. With the bounds
  minY = -1, maxY = 1 of the code and the box (0, 0, 100, 200), y = 1 gives pixel y = 0 and
  y = -1 gives pixel y = 200.
\<close>

theorem video_position_linear:
  "(0 < box_width b \<and> 0 < box_height b \<and> anns \<noteq> [] \<longrightarrow>
      draw_annotations mb (Some b) anns =
        map (\<lambda>ann. (box_x b +
                      (fst (position ann) - minX mb) / (maxX mb - minX mb) * box_width b,
                     box_y b +
                      (1 - (fst (snd (position ann)) - minY mb) / (maxY mb - minY mb))
                        * box_height b)) anns)
   \<and> (minY mb < maxY mb \<and> minY mb \<le> y \<and> y \<le> maxY mb \<and> 0 < box_height b \<longrightarrow>
        0 \<le> (y - minY mb) / (maxY mb - minY mb) \<and> (y - minY mb) / (maxY mb - minY mb) \<le> 1
        \<and> box_y b \<le> snd (video_position mb b (ann\<lparr>position := (x, y, z)\<rparr>))
        \<and> snd (video_position mb b (ann\<lparr>position := (x, y, z)\<rparr>)) \<le> box_y b + box_height b)
   \<and> (minY mb < maxY mb \<longrightarrow>
        snd (video_position mb b (ann\<lparr>position := (x, maxY mb, z)\<rparr>)) = box_y b
        \<and> snd (video_position mb b (ann\<lparr>position := (x, minY mb, z)\<rparr>)) = box_y b + box_height b)
   \<and> minY modelBounds = - 1 \<and> maxY modelBounds = 1
   \<and> draw_annotations modelBounds
        (Some \<lparr>box_x = 0, box_y = 0, box_width = 100, box_height = 200\<rparr>)
        [cap_marker, base_point] = [(50, 0), (50, 200)]"
proof (intro conjI impI)
  assume "0 < box_width b \<and> 0 < box_height b \<and> anns \<noteq> []"
  then show "draw_annotations mb (Some b) anns =
        map (\<lambda>ann. (box_x b +
                      (fst (position ann) - minX mb) / (maxX mb - minX mb) * box_width b,
                     box_y b +
                      (1 - (fst (snd (position ann)) - minY mb) / (maxY mb - minY mb))
                        * box_height b)) anns"
    by (simp add: draw_annotations_def video_position_def Let_def split: prod.splits)
next
  assume a: "minY mb < maxY mb \<and> minY mb \<le> y \<and> y \<le> maxY mb \<and> 0 < box_height b"
  then show n0: "0 \<le> (y - minY mb) / (maxY mb - minY mb)"
    by simp
  from a show n1: "(y - minY mb) / (maxY mb - minY mb) \<le> 1"
    by simp
  from a n1 have "0 \<le> (1 - (y - minY mb) / (maxY mb - minY mb)) * box_height b"
    by simp
  then show "box_y b \<le> snd (video_position mb b (ann\<lparr>position := (x, y, z)\<rparr>))"
    by (simp add: video_position_def Let_def)
  from a n0 have "(1 - (y - minY mb) / (maxY mb - minY mb)) * box_height b \<le> 1 * box_height b"
    by (intro mult_right_mono) auto
  then show "snd (video_position mb b (ann\<lparr>position := (x, y, z)\<rparr>)) \<le> box_y b + box_height b"
    by (simp add: video_position_def Let_def)
next
  assume "minY mb < maxY mb"
  then show "snd (video_position mb b (ann\<lparr>position := (x, maxY mb, z)\<rparr>)) = box_y b"
    by (simp add: video_position_def Let_def)
next
  show "snd (video_position mb b (ann\<lparr>position := (x, minY mb, z)\<rparr>)) = box_y b + box_height b"
    by (simp add: video_position_def Let_def)
next
  show "minY modelBounds = - 1" "maxY modelBounds = 1"
    by (simp_all add: modelBounds_def)
  show "draw_annotations modelBounds
        (Some \<lparr>box_x = 0, box_y = 0, box_width = 100, box_height = 200\<rparr>)
        [cap_marker, base_point] = [(50, 0), (50, 200)]"
    by (simp add: draw_annotations_def video_position_def modelBounds_def cap_marker_def
        base_point_def)
qed

theorem video_position_linear_witness:
  "0 < box_width example_box \<and> 0 < box_height example_box \<and> [cap_marker, base_point] \<noteq> []
   \<and> minY modelBounds < maxY modelBounds
   \<and> minY modelBounds \<le> 1 / 2 \<and> 1 / 2 \<le> maxY modelBounds
   \<and> draw_annotations modelBounds (Some example_box) [cap_marker, base_point] =
       [(200, 50), (200, 450)]
   \<and> snd (video_position modelBounds example_box (cap_marker\<lparr>position := (0, 1 / 2, 0)\<rparr>)) = 150"
  using video_position_linear
    [where b = example_box and anns = "[cap_marker, base_point]" and mb = modelBounds
       and y = "1 / 2" and ann = cap_marker and x = 0 and z = 0]
  by (simp add: draw_annotations_def video_position_def modelBounds_def cap_marker_def
        base_point_def example_box_def)

section \<open>The remote detection\<close>

text \<open>
  Claim C7, as stated, fails on its example: the two sizes are not inputs of
  \<^verbatim>\<open>detectWithVision\<close>. The canvas sent is always 640 by 480, so the factors are
  1280 / 640 = 2 and 720 / 480 = 1.5, and the box (160, 120, 50, 50) becomes
  (320, 180, 100, 75), not (640, 360, 200, 150).
\<close>

theorem detectWithVision_example_counterexample:
  "map_option (\<lambda>b. (box_x b, box_y b, box_width b, box_height b))
     (detectedBox (detectWithVision (Inr example_result) initial_client)) =
     Some (320, 180, 100, 75)
   \<and> map_option (\<lambda>b. (box_x b, box_y b, box_width b, box_height b))
     (detectedBox (detectWithVision (Inr example_result) initial_client)) \<noteq>
     Some (640, 360, 200, 150)"
  by (simp add: detectWithVision_def example_result_def Let_def)

text \<open>
  Claim C7, amended. Every coordinate of a positive answer (the box's x, y, width and
  height and, when present, the three part positions) is multiplied by 1280 / 640 for x
  and widths and by 720 / 480 for y and heights before it is stored; the box
  (160, 120, 50, 50) becomes (320, 180, 100, 75).
\<close>

theorem detectWithVision_rescale:
  "detectedBox (detectWithVision (Inr result) s) =
     (if detected result then
        Some \<lparr>box_x = box_x (res_bbox result) * (1280 / 640),
              box_y = box_y (res_bbox result) * (720 / 480),
              box_width = box_width (res_bbox result) * (1280 / 640),
              box_height = box_height (res_bbox result) * (720 / 480),
              box_class = ''bottle'', box_score = confidence result,
              box_source = Some ''gpt-4v'',
              box_parts =
                map_option
                  (\<lambda>parts.
                     \<lparr>part_cap = \<lparr>pt_x = pt_x (part_cap parts) * (1280 / 640),
                                  pt_y = pt_y (part_cap parts) * (720 / 480)\<rparr>,
                      part_middle = \<lparr>pt_x = pt_x (part_middle parts) * (1280 / 640),
                                     pt_y = pt_y (part_middle parts) * (720 / 480)\<rparr>,
                      part_bottom = \<lparr>pt_x = pt_x (part_bottom parts) * (1280 / 640),
                                     pt_y = pt_y (part_bottom parts) * (720 / 480)\<rparr>\<rparr>)
                  (res_parts result)\<rparr>
      else None)
   \<and> map_option (\<lambda>b. (box_x b, box_y b, box_width b, box_height b))
       (detectedBox (detectWithVision (Inr example_result) s)) = Some (320, 180, 100, 75)"
  by (simp add: detectWithVision_def scale_point_def example_result_def Let_def
      split: option.splits)

theorem detectWithVision_rescale_witness:
  "detected example_result
   \<and> map_option (\<lambda>b. (box_x b, box_y b, box_width b, box_height b))
       (detectedBox (detectWithVision (Inr example_result) initial_client)) =
       Some (320, 180, 100, 75)
   \<and> map_option (map_option part_cap \<circ> box_parts)
       (detectedBox (detectWithVision (Inr example_result) initial_client)) =
       Some (Some \<lparr>pt_x = 370, pt_y = 187.5\<rparr>)"
  using detectWithVision_rescale [where result = example_result and s = initial_client]
  by (simp add: example_result_def)

text \<open>
  Claim C9, as stated, fails: a failed request does not clear the box. On a client that
  tracks a box the cycle leaves that box in place.
\<close>

theorem detectWithVision_failure_counterexample:
  "detectedBox (detectWithVision (Inl NetworkError) tracking_client) = Some example_box
   \<and> detectedBox (detectWithVision (Inl NetworkError) tracking_client) \<noteq> None"
  by (simp add: detectWithVision_def tracking_client_def)

text \<open>
  Claim C9, amended. When the request fails the error is caught in the cycle and the
  client's state is what it was: the box of the previous cycle stays (no detection only
  when there was none before), and the annotations, the socket and what was sent are
  unchanged.
\<close>

theorem detectWithVision_failure:
  "detectWithVision (Inl error) s = s
   \<and> detectedBox (detectWithVision (Inl error) s) = detectedBox s
   \<and> annotations (detectWithVision (Inl error) s) = annotations s
   \<and> websocket (detectWithVision (Inl error) s) = websocket s
   \<and> connected (detectWithVision (Inl error) s) = connected s
   \<and> sent (detectWithVision (Inl error) s) = sent s
   \<and> (detectedBox s = None \<longrightarrow> detectedBox (detectWithVision (Inl error) s) = None)"
  by (simp add: detectWithVision_def)

theorem detectWithVision_failure_witness:
  "detectedBox initial_client = None
   \<and> detectedBox (detectWithVision (Inl NetworkError) initial_client) = None
   \<and> detectWithVision (Inl NetworkError) tracking_client = tracking_client"
  using detectWithVision_failure [of NetworkError initial_client]
    detectWithVision_failure [of NetworkError tracking_client]
  by (simp add: initial_client_def)

text \<open>The fast loop treats a failed detection in the same way.\<close>

lemma detectLoop_fast_failure: "detectLoop_fast video_ready (Inl error) s = s"
  by (simp add: detectLoop_fast_def)

section \<open>The annotation store\<close>

lemma falsy_cases:
  "\<not> truthy v \<longleftrightarrow>
     v = JUndefined \<or> v = JNull \<or> v = JBool False \<or> v = JNaN \<or> v = JNum 0 \<or> v = JStr ''''"
  by (cases v) auto

lemma json_value_truthy: "truthy v \<Longrightarrow> json_value v = v"
  by (cases v) (auto simp: json_value_def)

lemma json_value_num: "json_value (JNum n) = JNum n"
  by (simp add: json_value_def)

lemma strict_eq_iff: "strict_eq a b \<longleftrightarrow> a = b \<and> a \<noteq> JNaN"
  by (cases a; cases b) auto

lemma count_list_filter:
  "count_list (filter P xs) a = (if P a then count_list xs a else 0)"
  by (induction xs) auto

text \<open>
  Claim C4 does not hold of \<^verbatim>\<open>removeAnnotation\<close>. \<^verbatim>\<open>resetApp\<close> calls
  \<^verbatim>\<open>removeAnnotation(null)\<close> to clear all, but on a client with two annotations and an
  open socket the call keeps both annotations, since neither id is \<^verbatim>\<open>null\<close>, and sends
  \<^verbatim>\<open>{type: "annotation_removed", id: null}\<close>: the sequence is not cleared, and a message
  is broadcast.
\<close>

theorem removeAnnotation_null_keeps_all:
  "annotations (removeAnnotation JNull open_client) = [cap_marker, base_point]
   \<and> sent (removeAnnotation JNull open_client) = [annotation_removed JNull]
   \<and> annotations (resetApp open_client) = [cap_marker, base_point]
   \<and> sent (resetApp open_client) = [annotation_removed JNull]
   \<and> annotations (resetApp open_client) \<noteq> []
   \<and> sent (resetApp open_client) \<noteq> sent open_client"
  by (simp add: resetApp_def removeAnnotation_def send_if_open_def open_client_def
      initial_client_def cap_marker_def base_point_def json_value_def)

text \<open>
  What \<^verbatim>\<open>removeAnnotation\<close> does for every id, \<^verbatim>\<open>null\<close> like any other: it removes exactly
  the annotations whose id is strictly equal to it, keeps the others in their order and
  number, and sends one removal message when the socket is open, none otherwise.
\<close>

lemma removeAnnotation_every_id:
  "annotations (removeAnnotation i s) =
     filter (\<lambda>a. \<not> strict_eq (ann_id a) i) (annotations s)
   \<and> set (annotations (removeAnnotation i s)) =
       {a \<in> set (annotations s). ann_id a \<noteq> i \<or> i = JNaN}
   \<and> subseq (annotations (removeAnnotation i s)) (annotations s)
   \<and> (\<forall>a. count_list (annotations (removeAnnotation i s)) a =
          (if strict_eq (ann_id a) i then 0 else count_list (annotations s) a))
   \<and> sent (removeAnnotation i s) =
       (if websocket s = Some OPEN then sent s @ [annotation_removed (json_value i)]
        else sent s)"
  by (auto simp: removeAnnotation_def send_if_open_def strict_eq_iff count_list_filter)

lemma removeAnnotation_example:
  "annotations (removeAnnotation (JStr ''a1'') open_client) = [base_point]
   \<and> sent (removeAnnotation (JStr ''a1'') open_client) = [annotation_removed (JStr ''a1'')]
   \<and> sent (removeAnnotation (JStr ''a1'') (open_client\<lparr>websocket := Some CLOSED\<rparr>)) = []
   \<and> sent (removeAnnotation JNaN open_client) = [annotation_removed JNull]"
  by (simp add: removeAnnotation_def send_if_open_def open_client_def
      initial_client_def cap_marker_def base_point_def json_value_def)

text \<open>
  Claim C8. Handling a removal message raises no error and gives a store without any
  annotation of that id; handling the same message again raises no error either and
  leaves that store as it is, so the message applied twice gives what it gives applied
  once. Nothing is sent back.
\<close>

theorem annotation_removed_idempotent:
  "\<exists>s1. handleMessage (json_message (annotation_removed i)) s = Inr s1
      \<and> handleMessage (json_message (annotation_removed i)) s1 = Inr s1
      \<and> handleMessages2 (json_message (annotation_removed i))
            (json_message (annotation_removed i)) s = Inr s1
      \<and> (\<forall>a \<in> set (annotations s1). \<not> strict_eq (ann_id a) i)
      \<and> (i \<noteq> JNaN \<longrightarrow> i \<notin> ann_id ` set (annotations s1))
      \<and> set (annotations s1) = {a \<in> set (annotations s). \<not> strict_eq (ann_id a) i}
      \<and> sent s1 = sent s"
  by (auto simp: handleMessages2_def strict_eq_iff)

theorem annotation_removed_idempotent_witness:
  "handleMessage (json_message (annotation_removed (JStr ''a1''))) open_client =
     Inr (open_client\<lparr>annotations := [base_point]\<rparr>)
   \<and> handleMessage (json_message (annotation_removed (JStr ''a1'')))
        (open_client\<lparr>annotations := [base_point]\<rparr>) =
     Inr (open_client\<lparr>annotations := [base_point]\<rparr>)
   \<and> handleMessages2 (json_message (annotation_removed (JStr ''a1'')))
        (json_message (annotation_removed (JStr ''a1''))) open_client =
     Inr (open_client\<lparr>annotations := [base_point]\<rparr>)
   \<and> JStr ''a1'' \<notin> ann_id ` set [base_point]"
proof -
  from annotation_removed_idempotent [of "JStr ''a1''" open_client]
  obtain s1 where
    once: "handleMessage (json_message (annotation_removed (JStr ''a1''))) open_client = Inr s1"
    and again: "handleMessage (json_message (annotation_removed (JStr ''a1''))) s1 = Inr s1"
    and twice: "handleMessages2 (json_message (annotation_removed (JStr ''a1'')))
        (json_message (annotation_removed (JStr ''a1''))) open_client = Inr s1"
    and gone: "JStr ''a1'' \<noteq> JNaN \<longrightarrow> JStr ''a1'' \<notin> ann_id ` set (annotations s1)"
    by blast
  from once have s1: "s1 = open_client\<lparr>annotations := [base_point]\<rparr>"
    by (simp add: open_client_def initial_client_def cap_marker_def base_point_def)
  from once again twice gone show ?thesis
    unfolding s1 by simp
qed

text \<open>
  Claim C10. \<^verbatim>\<open>addAnnotation\<close> appends the annotation with its own id when that id is
  truthy and with the clock's value when it is falsy, as \<^verbatim>\<open>null\<close>, \<^verbatim>\<open>undefined\<close>, 0 and the
  empty string are; the annotation it sends, when the socket is open, is the one it
  stored. A falsy id is never the stored one unless the clock reads 0.
\<close>

theorem addAnnotation_id:
  "annotations (addAnnotation now ann s) =
      annotations s @ [ann\<lparr>ann_id := (if truthy (ann_id ann) then ann_id ann else JNum now)\<rparr>]
   \<and> sent (addAnnotation now ann s) =
      (if websocket s = Some OPEN
       then sent s @ [annotation_added
              (ann\<lparr>ann_id := (if truthy (ann_id ann) then ann_id ann else JNum now)\<rparr>)]
       else sent s)
   \<and> (ann_id ann \<in> {JNull, JUndefined, JNum 0, JStr ''''} \<longrightarrow> \<not> truthy (ann_id ann))
   \<and> (\<not> truthy (ann_id ann) \<and> now \<noteq> 0 \<longrightarrow> JNum now \<noteq> ann_id ann)"
  by (auto simp: addAnnotation_def Let_def js_or_def send_if_open_def falsy_cases
      json_value_truthy json_value_num)

theorem addAnnotation_id_witness:
  "annotations (addAnnotation 1700000000000 zero_id_point open_client) =
      [cap_marker, base_point, zero_id_point\<lparr>ann_id := JNum 1700000000000\<rparr>]
   \<and> sent (addAnnotation 1700000000000 zero_id_point open_client) =
      [annotation_added (zero_id_point\<lparr>ann_id := JNum 1700000000000\<rparr>)]
   \<and> ann_id zero_id_point = JNum 0
   \<and> \<not> truthy (ann_id zero_id_point) \<and> JNum 1700000000000 \<noteq> ann_id zero_id_point
   \<and> annotations (addAnnotation 1700000000000 cap_marker initial_client) = [cap_marker]"
  using addAnnotation_id [of 1700000000000 zero_id_point open_client]
  by (simp add: zero_id_point_def open_client_def initial_client_def cap_marker_def
      addAnnotation_def js_or_def send_if_open_def json_value_def)

end
